theory Spec2Isabelle
  imports Complex_Main "HOL-Library.Sublist"
begin

section \<open>Outcomes of calls\<close>

text \<open>
  The notebook is Python glue around TensorFlow, TensorFlow Probability, NumPy and the
  plotting libraries. A call either returns a value, raises an exception, or does not
  return at all; the three are the constructors of \<open>outcome\<close>.
\<close>

datatype exn = NameError | TypeError | ValueError | LibraryError nat

datatype 'a outcome = Diverges | Raises exn | Returns 'a

definition bind :: "'a outcome \<Rightarrow> ('a \<Rightarrow> 'b outcome) \<Rightarrow> 'b outcome" where
  "bind m f = (case m of Diverges \<Rightarrow> Diverges | Raises e \<Rightarrow> Raises e | Returns a \<Rightarrow> f a)"

definition or_raise :: "exn \<Rightarrow> 'a option \<Rightarrow> 'a outcome" where
  "or_raise e m = (case m of None \<Rightarrow> Raises e | Some a \<Rightarrow> Returns a)"

section \<open>Session options\<close>

text \<open>
  \<open>tf.ConfigProto\<close> is a protocol-buffer message. Only the three fields the notebook
  writes are kept; a freshly constructed message has every field at its protocol-buffer
  default (\<open>False\<close> for a flag, the enum's zero value \<open>DEFAULT\<close> for the JIT level).
\<close>

datatype GlobalJitLevel = DEFAULT | OFF | ON_1 | ON_2

record GPUOptions =
  allow_growth :: bool

record OptimizerOptions =
  global_jit_level :: GlobalJitLevel

record GraphOptions =
  optimizer_options :: OptimizerOptions

record ConfigProto =
  log_device_placement :: bool
  gpu_options :: GPUOptions
  graph_options :: GraphOptions

definition tf_ConfigProto :: ConfigProto where
  "tf_ConfigProto =
     \<lparr>log_device_placement = False,
      gpu_options = \<lparr>allow_growth = False\<rparr>,
      graph_options = \<lparr>optimizer_options = \<lparr>global_jit_level = DEFAULT\<rparr>\<rparr>\<rparr>"

text \<open>
  \<^verbatim>\<open>
  def session_options(enable_gpu_ram_resizing=True, enable_xla=True):
    config = tf.ConfigProto()
    config.log_device_placement = True
    if enable_gpu_ram_resizing:
      config.gpu_options.allow_growth = True
    if enable_xla:
      config.graph_options.optimizer_options.global_jit_level = (
          tf.OptimizerOptions.ON_1)
    return config
  \<close>
\<close>

definition session_options :: "bool \<Rightarrow> bool \<Rightarrow> ConfigProto" where
  "session_options enable_gpu_ram_resizing enable_xla =
     (let config = tf_ConfigProto;
          config = config\<lparr>log_device_placement := True\<rparr>;
          config = (if enable_gpu_ram_resizing
                    then config\<lparr>gpu_options := (gpu_options config)\<lparr>allow_growth := True\<rparr>\<rparr>
                    else config);
          config = (if enable_xla
                    then config\<lparr>graph_options := (graph_options config)
                           \<lparr>optimizer_options := (optimizer_options (graph_options config))
                              \<lparr>global_jit_level := ON_1\<rparr>\<rparr>\<rparr>
                    else config)
      in config)"

section \<open>Tensors\<close>

text \<open>
  A tensor is a scalar or a list of tensors along its first axis. Entries are real
  numbers: the rounding of \<open>float32\<close> arithmetic is not part of the model. An empty list
  stands for an empty tensor of whatever rank the operation applied to it expects.
\<close>

datatype tensor = Scalar real | Tensor "tensor list"

fun scalar_of :: "tensor \<Rightarrow> real option" where
  "scalar_of (Scalar r) = Some r"
| "scalar_of (Tensor ts) = None"

fun vector_of :: "tensor \<Rightarrow> real list option" where
  "vector_of (Scalar r) = None"
| "vector_of (Tensor ts) = those (map scalar_of ts)"

definition vec :: "real list \<Rightarrow> tensor" where
  "vec rs = Tensor (map Scalar rs)"

definition mat :: "real list list \<Rightarrow> tensor" where
  "mat rows = Tensor (map vec rows)"

text \<open>A matrix as a list of rows: all rows of one length \<open>n\<close>.\<close>

definition rectangular :: "nat \<Rightarrow> real list list \<Rightarrow> bool" where
  "rectangular n rows = list_all (\<lambda>row. length row = n) rows"

definition ncols :: "real list list \<Rightarrow> nat" where
  "ncols rows = (case rows of [] \<Rightarrow> 0 | row # _ \<Rightarrow> length row)"

text \<open>A matrix is lower triangular when every entry above the main diagonal is zero.\<close>

definition lower_triangular :: "real list list \<Rightarrow> bool" where
  "lower_triangular rows =
     list_all (\<lambda>i. list_all (\<lambda>j. i < j \<longrightarrow> rows ! i ! j = 0) [0..<length (rows ! i)])
       [0..<length rows]"

subsection \<open>Elementwise operations and constructors of NumPy and TensorFlow\<close>

fun tmap :: "(real \<Rightarrow> real) \<Rightarrow> tensor \<Rightarrow> tensor" where
  "tmap f (Scalar r) = Scalar (f r)"
| "tmap f (Tensor ts) = Tensor (map (tmap f) ts)"

text \<open>\<open>tf.abs\<close>, as a function that can be passed for \<open>transform_fn\<close>.\<close>

definition tf_abs :: "tensor \<Rightarrow> tensor outcome" where
  "tf_abs t = Returns (tmap abs t)"

text \<open>\<open>-a\<close> and \<open>a / c\<close> on a NumPy array; \<open>tf.ones_like\<close>.\<close>

definition np_neg :: "tensor \<Rightarrow> tensor" where
  "np_neg t = tmap uminus t"

definition np_div :: "tensor \<Rightarrow> real \<Rightarrow> tensor" where
  "np_div t c = tmap (\<lambda>r. r / c) t"

definition tf_ones_like :: "tensor \<Rightarrow> tensor" where
  "tf_ones_like t = tmap (\<lambda>r. 1) t"

text \<open>\<open>tf.fill(dims, value)\<close>, \<open>tf.ones(shape)\<close>, \<open>np.ones(n)\<close>, \<open>np.zeros(n)\<close>.\<close>

fun tf_fill :: "nat list \<Rightarrow> real \<Rightarrow> tensor" where
  "tf_fill [] v = Scalar v"
| "tf_fill (n # ns) v = Tensor (replicate n (tf_fill ns v))"

definition tf_ones :: "nat list \<Rightarrow> tensor" where
  "tf_ones shape = tf_fill shape 1"

definition np_ones :: "nat \<Rightarrow> tensor" where
  "np_ones n = vec (replicate n 1)"

definition np_zeros :: "nat \<Rightarrow> tensor" where
  "np_zeros n = vec (replicate n 0)"

text \<open>\<open>np.eye(n)\<close>, and \<open>tf.eye(n, batch_shape=bs)\<close>.\<close>

definition np_eye :: "nat \<Rightarrow> tensor" where
  "np_eye n = mat (map (\<lambda>i. map (\<lambda>j. if i = j then 1 else 0) [0..<n]) [0..<n])"

fun tf_eye :: "nat \<Rightarrow> nat list \<Rightarrow> tensor" where
  "tf_eye n [] = np_eye n"
| "tf_eye n (b # bs) = Tensor (replicate b (tf_eye n bs))"

text \<open>
  \<open>np.stack(arrays)\<close> joins equally shaped arrays along a new first axis. The notebook
  calls it twice, each time on a literal list of arrays of one shape.
\<close>

definition np_stack :: "tensor list \<Rightarrow> tensor" where
  "np_stack ts = Tensor ts"

subsection \<open>Operations along the last axis\<close>

text \<open>
  \<open>last_axis f t\<close> applies \<open>f\<close> to every innermost vector of \<open>t\<close>, and
  \<open>last_two_axes f t\<close> applies \<open>f\<close> to every innermost matrix of \<open>t\<close>, given as its list
  of rows. A scalar has no last axis and a vector no last two axes.
\<close>

fun last_axis :: "(real list \<Rightarrow> tensor option) \<Rightarrow> tensor \<Rightarrow> tensor option" where
  "last_axis f (Scalar r) = None"
| "last_axis f (Tensor ts) =
     (case those (map scalar_of ts) of
        Some rs \<Rightarrow> f rs
      | None \<Rightarrow> map_option Tensor (those (map (last_axis f) ts)))"

fun last_two_axes :: "(real list list \<Rightarrow> tensor option) \<Rightarrow> tensor \<Rightarrow> tensor option" where
  "last_two_axes f (Scalar r) = None"
| "last_two_axes f (Tensor ts) =
     (case those (map vector_of ts) of
        Some rows \<Rightarrow> (if rectangular (ncols rows) rows then f rows else None)
      | None \<Rightarrow> map_option Tensor (those (map (last_two_axes f) ts)))"

text \<open>
  \<open>distribution_util.pad(x, axis=-1, back=True)\<close>: with the defaults \<open>value=0\<close> and
  \<open>count=1\<close>, one zero is appended at the back of the last axis.
\<close>

definition pad :: "tensor \<Rightarrow> tensor outcome" where
  "pad x = or_raise ValueError (last_axis (\<lambda>rs. Some (vec (rs @ [0]))) x)"

text \<open>\<open>tf.reduce_sum(x, axis=-1)\<close>.\<close>

definition tf_reduce_sum :: "tensor \<Rightarrow> tensor outcome" where
  "tf_reduce_sum x = or_raise ValueError (last_axis (\<lambda>rs. Some (Scalar (sum_list rs))) x)"

text \<open>\<open>x[..., tf.newaxis]\<close>: every entry becomes a vector of length one.\<close>

fun expand_last :: "tensor \<Rightarrow> tensor" where
  "expand_last (Scalar r) = Tensor [Scalar r]"
| "expand_last (Tensor ts) = Tensor (map expand_last ts)"

text \<open>
  \<open>tf.concat(values, axis=-1)\<close>. Two tensors are joined along the last axis when both
  are vectors, and otherwise entry by entry along the first axis, which must have the
  same length in both; a list is joined from the left.
\<close>

function (sequential) concat_last2 :: "tensor \<Rightarrow> tensor \<Rightarrow> tensor option" where
  "concat_last2 (Tensor as) (Tensor bs) =
     (case (those (map scalar_of as), those (map scalar_of bs)) of
        (Some xs, Some ys) \<Rightarrow> Some (Tensor (as @ bs))
      | _ \<Rightarrow> (if length as = length bs
              then map_option Tensor (those (map (\<lambda>(a, b). concat_last2 a b) (zip as bs)))
              else None))"
| "concat_last2 (Scalar r) b = None"
| "concat_last2 a (Scalar r) = None"
  by pat_completeness auto
termination
  by (relation "measure (\<lambda>(a, b). size a)")
     (auto dest!: set_zip_leftD simp: less_Suc_eq_le size_list_estimation')

fun concat_last :: "tensor list \<Rightarrow> tensor option" where
  "concat_last [] = None"
| "concat_last [t] = (case t of Scalar r \<Rightarrow> None | Tensor ts \<Rightarrow> Some t)"
| "concat_last (t # u # ts) =
     (case concat_last2 t u of None \<Rightarrow> None | Some tu \<Rightarrow> concat_last (tu # ts))"

definition tf_concat :: "tensor list \<Rightarrow> tensor outcome" where
  "tf_concat values = or_raise ValueError (concat_last values)"

subsection \<open>The diagonal of a matrix\<close>

text \<open>
  \<open>tf.matrix_diag_part(y)\<close> returns the main diagonal of each innermost matrix of \<open>y\<close>,
  and \<open>tf.linalg.set_diag(y, d)\<close> returns \<open>y\<close> with the main diagonal of each innermost
  matrix replaced by the matching vector of \<open>d\<close>.
\<close>

definition diag_part :: "real list list \<Rightarrow> real list" where
  "diag_part rows = map (\<lambda>i. rows ! i ! i) [0..<min (length rows) (ncols rows)]"

definition with_diag :: "real list list \<Rightarrow> real list \<Rightarrow> real list list" where
  "with_diag rows d =
     map (\<lambda>i. if i < length d then (rows ! i)[i := d ! i] else rows ! i) [0..<length rows]"

definition matrix_diag_part :: "tensor \<Rightarrow> tensor option" where
  "matrix_diag_part y = last_two_axes (\<lambda>rows. Some (vec (diag_part rows))) y"

function (sequential) set_diag :: "tensor \<Rightarrow> tensor \<Rightarrow> tensor option" where
  "set_diag (Tensor ys) (Tensor ds) =
     (case (those (map vector_of ys), those (map scalar_of ds)) of
        (Some rows, Some d) \<Rightarrow>
          (if rectangular (ncols rows) rows \<and> length d = min (length rows) (ncols rows)
           then Some (mat (with_diag rows d)) else None)
      | _ \<Rightarrow> (if length ys = length ds
              then map_option Tensor (those (map (\<lambda>(y, d). set_diag y d) (zip ys ds)))
              else None))"
| "set_diag (Scalar r) d = None"
| "set_diag y (Scalar r) = None"
  by pat_completeness auto
termination
  by (relation "measure (\<lambda>(y, d). size y)")
     (auto dest!: set_zip_leftD simp: less_Suc_eq_le size_list_estimation')

definition tf_matrix_diag_part :: "tensor \<Rightarrow> tensor outcome" where
  "tf_matrix_diag_part y = or_raise ValueError (matrix_diag_part y)"

definition tf_set_diag :: "tensor \<Rightarrow> tensor \<Rightarrow> tensor outcome" where
  "tf_set_diag y d = or_raise ValueError (set_diag y d)"

section \<open>Distributions and bijectors of the library\<close>

text \<open>
  The objects of \<open>tfp.distributions\<close> and its bijectors that the notebook constructs, each
  with the arguments it is given. Constructing one is building a value. What a
  distribution computes is the library's affair: its log-density is the parameter
  \<open>log_prob\<close> below, and the checks the library makes on an object, when it is built or
  when it is used, are part of what \<open>log_prob\<close> returns for it.
\<close>

datatype bijector =
    SoftmaxCentered
  | Affine tensor
  | Invert bijector

datatype distribution =
    Dirichlet tensor
  | Normal tensor tensor
  | Independent distribution nat
  | TransformedDistribution distribution bijector "string option"
  | WishartCholesky real tensor bool
  | Categorical tensor
  | MixtureSameFamily distribution distribution

text \<open>
  The library functions whose result depends on their arguments alone and is not fixed
  by the notebook: \<open>tfd.fill_triangular\<close>, \<open>distribution_util.fill_triangular_inverse\<close>,
  the method \<open>log_prob\<close> of a distribution, \<open>tfb.SoftmaxCentered().forward\<close>,
  \<open>tf.reduce_mean\<close> (over all axes, or over the axis given), and of NumPy the indexing
  \<open>a[indices]\<close> by an array of indices, the sum \<open>a + b\<close> of two arrays and the slice
  \<open>a[:, k, j]\<close>.
\<close>

record library =
  fill_triangular :: "tensor \<Rightarrow> tensor outcome"
  fill_triangular_inverse :: "tensor \<Rightarrow> tensor outcome"
  log_prob :: "distribution \<Rightarrow> tensor \<Rightarrow> tensor outcome"
  softmax_centered_forward :: "tensor \<Rightarrow> tensor outcome"
  reduce_mean :: "tensor \<Rightarrow> nat option \<Rightarrow> tensor outcome"
  np_take :: "tensor \<Rightarrow> tensor \<Rightarrow> tensor outcome"
  np_add :: "tensor \<Rightarrow> tensor \<Rightarrow> tensor outcome"
  np_slice :: "tensor \<Rightarrow> nat \<Rightarrow> nat \<Rightarrow> tensor outcome"

section \<open>The unconstrained representation\<close>

text \<open>
  \<^verbatim>\<open>
  class UnconstrainedDirichlet(tfd.TransformedDistribution):
    def __init__(self, concentration, name=None):
      super(UnconstrainedDirichlet, self).__init__(
          distribution=tfd.Dirichlet(concentration),
          bijector=tfb.Invert(tfb.SoftmaxCentered()),
          name=name)

  class MVNInverseTriL(tfd.TransformedDistribution):
    def __init__(self, loc, precision_tril, name=None):
      super(MVNInverseTriL, self).__init__(
          distribution=tfd.Independent(tfd.Normal(loc, scale=tf.ones_like(loc)),
                                       reinterpreted_batch_ndims=1),
          bijector=tfb.Invert(tfb.Affine(scale_tril=precision_tril)),
          name=name)
  \<close>
  Both classes define a constructor and nothing else.
\<close>

definition UnconstrainedDirichlet :: "tensor \<Rightarrow> string option \<Rightarrow> distribution" where
  "UnconstrainedDirichlet concentration name =
     TransformedDistribution (Dirichlet concentration) (Invert SoftmaxCentered) name"

definition MVNInverseTriL :: "tensor \<Rightarrow> tensor \<Rightarrow> string option \<Rightarrow> distribution" where
  "MVNInverseTriL loc precision_tril name =
     TransformedDistribution
       (Independent (Normal loc (tf_ones_like loc)) 1)
       (Invert (Affine precision_tril))
       name"

text \<open>
  \<^verbatim>\<open>
  def make_tril(x, transform_fn=tf.abs):
    y = tfd.fill_triangular(x)
    if transform_fn is None:
      return y
    new_diag = transform_fn(tf.matrix_diag_part(y))
    return tf.linalg.set_diag(y, new_diag)
  \<close>
  The default of \<open>transform_fn\<close> is written out at every call: \<open>Some tf_abs\<close>.
\<close>

definition make_tril ::
  "library \<Rightarrow> tensor \<Rightarrow> (tensor \<Rightarrow> tensor outcome) option \<Rightarrow> tensor outcome" where
  "make_tril L x transform_fn =
     bind (fill_triangular L x) (\<lambda>y.
       case transform_fn of
         None \<Rightarrow> Returns y
       | Some f \<Rightarrow>
           bind (tf_matrix_diag_part y) (\<lambda>diag.
           bind (f diag) (\<lambda>new_diag.
           tf_set_diag y new_diag)))"

section \<open>The priors\<close>

definition dims :: nat where
  "dims = 2"

definition components :: nat where
  "components = 3"

text \<open>
  \<^verbatim>\<open>
  rv_logits = UnconstrainedDirichlet(concentration=np.ones(components, dtype) / 10.)
  rv_loc = tfd.Independent(
      tfd.Normal(
          loc=np.stack([-np.ones(dims, dtype), np.zeros(dims, dtype), np.ones(dims, dtype)]),
          scale=tf.ones([components, dims], dtype)),
      reinterpreted_batch_ndims=1)
  rv_precision = tfd.WishartCholesky(
      df=5,
      scale=np.stack([np.eye(dims, dtype=dtype)]*components),
      cholesky_input_output_matrices=True)
  \<close>
\<close>

definition rv_logits :: distribution where
  "rv_logits = UnconstrainedDirichlet (np_div (np_ones components) 10) None"

definition rv_loc :: distribution where
  "rv_loc =
     Independent
       (Normal
          (np_stack [np_neg (np_ones dims), np_zeros dims, np_ones dims])
          (tf_ones [components, dims]))
       1"

definition rv_precision :: distribution where
  "rv_precision =
     WishartCholesky 5 (np_stack (replicate components (np_eye dims))) True"

section \<open>The joint log-density\<close>

text \<open>
  \<^verbatim>\<open>
  def joint_log_prob(observations, logits, loc, flat_chol_precision):
    chol_precision = make_tril(flat_chol_precision)
    rv_observations = tfd.MixtureSameFamily(
        mixture_distribution=tfd.Categorical(
            logits=distribution_util.pad(logits, axis=-1, back=True)),
        components_distribution=MVNInverseTriL(
            loc=loc,
            precision_tril=chol_precision))
    log_prob_parts = [
        rv_observations.log_prob(observations),
        rv_logits.log_prob(logits)[..., tf.newaxis],
        rv_loc.log_prob(loc),
        rv_precision.log_prob(chol_precision),
    ]
    sum_log_prob = tf.reduce_sum(tf.concat(log_prob_parts, axis=-1), axis=-1)
    return sum_log_prob
  \<close>
  The local variable \<open>rv_observations\<close> is a definition of its own.
\<close>

definition rv_observations :: "tensor \<Rightarrow> tensor \<Rightarrow> tensor \<Rightarrow> distribution outcome" where
  "rv_observations logits loc chol_precision =
     bind (pad logits) (\<lambda>padded.
     Returns (MixtureSameFamily
                (Categorical padded)
                (MVNInverseTriL loc chol_precision None)))"

definition joint_log_prob ::
  "library \<Rightarrow> tensor \<Rightarrow> tensor \<Rightarrow> tensor \<Rightarrow> tensor \<Rightarrow> tensor outcome" where
  "joint_log_prob L observations logits loc flat_chol_precision =
     bind (make_tril L flat_chol_precision (Some tf_abs)) (\<lambda>chol_precision.
     bind (rv_observations logits loc chol_precision) (\<lambda>rv_obs.
     bind (log_prob L rv_obs observations) (\<lambda>part_observations.
     bind (log_prob L rv_logits logits) (\<lambda>lp_logits.
     bind (log_prob L rv_loc loc) (\<lambda>part_loc.
     bind (log_prob L rv_precision chol_precision) (\<lambda>part_precision.
     bind (tf_concat [part_observations, expand_last lp_logits, part_loc, part_precision])
       (\<lambda>log_prob_parts.
     tf_reduce_sum log_prob_parts)))))))"

text \<open>
  \<^verbatim>\<open>
  unnormalized_posterior_log_prob = lambda *args: joint_log_prob(observations, *args)
  \<close>
  \<open>observations\<close> is the global holding the generated data. The closure accepts any
  number of positional arguments and hands them on; \<open>joint_log_prob\<close> takes exactly three
  after \<open>observations\<close>, and Python raises \<open>TypeError\<close> for any other number.
\<close>

definition unnormalized_posterior_log_prob ::
  "library \<Rightarrow> tensor \<Rightarrow> tensor list \<Rightarrow> tensor outcome" where
  "unnormalized_posterior_log_prob L observations args =
     (case args of
        [logits, loc, flat_chol_precision] \<Rightarrow>
          joint_log_prob L observations logits loc flat_chol_precision
      | _ \<Rightarrow> Raises TypeError)"

text \<open>
  \<^verbatim>\<open>
  initial_state = [
      tf.fill([components-1], value=np.array(0, dtype), name='logits'),
      tf.constant(np.array([[-2, -2], [0, 0], [2, 2]], dtype), name='loc'),
      distribution_util.fill_triangular_inverse(
          tf.eye(dims, batch_shape=[components], dtype=dtype),
          name='flat_chol_precision'),
  ]
  \<close>
\<close>

definition initial_state :: "library \<Rightarrow> tensor list outcome" where
  "initial_state L =
     bind (fill_triangular_inverse L (tf_eye dims [components])) (\<lambda>flat_chol_precision.
     Returns [tf_fill [components - 1] 0,
              mat [[-2, -2], [0, 0], [2, 2]],
              flat_chol_precision])"

section \<open>The process: sessions, random numbers, sampling, output\<close>

text \<open>
  Some calls act on the process rather than compute a value from their arguments: they
  reset the default graph, open and close sessions, draw random numbers, run the chain,
  evaluate tensors, print and plot. The state of the process is the history of these
  calls and of the bindings of globals, and what a call returns is a function of the
  history up to and including it;
  that function is the parameter \<open>environment\<close>. Tensors stand for the values they
  evaluate to, so building a graph node and evaluating it are not told apart.
\<close>

datatype session = Session nat

text \<open>
  The values that the notebook prints or binds to a global: a string, an integer, a
  tensor, a list of tensors, a distribution, the closure handed to the sampler, or an
  object of which only the kind matters (a function or class that the notebook defines,
  a dtype, a random state, the axes of a plot).
\<close>

datatype pyval =
    Str string
  | Arr tensor
  | Dist distribution
  | Number int
  | Arrs "tensor list"
  | Fn "tensor list \<Rightarrow> tensor outcome"
  | Object string

record HamiltonianMonteCarlo =
  target_log_prob_fn :: "tensor list \<Rightarrow> tensor outcome"
  step_size :: real
  num_leapfrog_steps :: nat

datatype call =
    StyleUse string
  | ResetDefaultGraph
  | SessionClose session
  | NewInteractiveSession ConfigProto
  | Print "pyval list"
  | RandomState nat
  | Randint nat nat nat
  | Randn nat nat
  | SampleChain nat nat HamiltonianMonteCarlo "tensor list"
  | SessionRun session "tensor list"
  | KdePlot tensor tensor bool
  | PlotTitle string
  | Assign string pyval

text \<open>
  \<open>Assign name value\<close> is not a call: it records that a statement at the top level of a
  cell has bound the global \<open>name\<close>, by an assignment, a \<open>def\<close> or a \<open>class\<close>. It stands
  in the history where the statement is executed, so that the history tells in which
  order the notebook defines its globals and calls into the process. (The global \<open>sess\<close>
  is rebound inside \<open>reset_sess\<close>; it is the field \<open>sess\<close> of the world below.)

  The result of \<open>sample_chain\<close> is the list of sampled states and the kernel results, of
  which the notebook reads \<open>is_accepted\<close> only; that tensor of booleans is carried as a
  tensor of zeros and ones.
\<close>

record environment =
  returns_none :: "call list \<Rightarrow> unit outcome"
  returns_session :: "call list \<Rightarrow> session outcome"
  returns_array :: "call list \<Rightarrow> tensor outcome"
  returns_arrays :: "call list \<Rightarrow> tensor list outcome"
  returns_chain :: "call list \<Rightarrow> (tensor list \<times> tensor) outcome"

text \<open>The global \<open>sess\<close> is unbound until \<open>reset_sess\<close> first assigns it.\<close>

record world =
  history :: "call list"
  sess :: "session option"

type_synonym 'a prog = "world \<Rightarrow> 'a outcome \<times> world"

definition seq :: "'a prog \<Rightarrow> ('a \<Rightarrow> 'b prog) \<Rightarrow> 'b prog" where
  "seq m f w =
     (case m w of
        (Diverges, w') \<Rightarrow> (Diverges, w')
      | (Raises e, w') \<Rightarrow> (Raises e, w')
      | (Returns a, w') \<Rightarrow> f a w')"

definition lift :: "'a outcome \<Rightarrow> 'a prog" where
  "lift m w = (m, w)"

definition perform :: "(call list \<Rightarrow> 'a outcome) \<Rightarrow> call \<Rightarrow> 'a prog" where
  "perform respond c w =
     (let h = history w @ [c] in (respond h, w\<lparr>history := h\<rparr>))"

text \<open>A statement that binds a global writes the binding into the history.\<close>

definition assign :: "string \<Rightarrow> pyval \<Rightarrow> unit prog" where
  "assign name v w = (Returns (), w\<lparr>history := history w @ [Assign name v]\<rparr>)"

text \<open>Unpacking a list into \<open>n\<close> names raises \<open>ValueError\<close> unless it has \<open>n\<close> entries.\<close>

definition unpack :: "nat \<Rightarrow> 'a list \<Rightarrow> 'a list outcome" where
  "unpack n xs = (if length xs = n then Returns xs else Raises ValueError)"

text \<open>\<^verbatim>\<open>try: ... except: pass\<close>: an exception of the body is dropped.\<close>

definition try_except_pass :: "unit prog \<Rightarrow> unit prog" where
  "try_except_pass body w =
     (case body w of
        (Raises e, w') \<Rightarrow> (Returns (), w')
      | r \<Rightarrow> r)"

text \<open>Reading the global \<open>sess\<close> raises \<open>NameError\<close> while it is unbound.\<close>

definition read_sess :: "session prog" where
  "read_sess w = (case sess w of None \<Rightarrow> (Raises NameError, w) | Some s \<Rightarrow> (Returns s, w))"

definition assign_sess :: "session \<Rightarrow> unit prog" where
  "assign_sess s w = (Returns (), w\<lparr>sess := Some s\<rparr>)"

text \<open>
  \<^verbatim>\<open>
  def reset_sess(config=None):
    if config is None:
      config = session_options()
    tf.reset_default_graph()
    global sess
    try:
      sess.close()
    except:
      pass
    sess = tf.InteractiveSession(config=config)
  \<close>
\<close>

definition reset_sess :: "environment \<Rightarrow> ConfigProto option \<Rightarrow> unit prog" where
  "reset_sess R config =
     (let config = (case config of None \<Rightarrow> session_options True True | Some c \<Rightarrow> c) in
      seq (perform (returns_none R) ResetDefaultGraph) (\<lambda>_.
      seq (try_except_pass
             (seq read_sess (\<lambda>s. perform (returns_none R) (SessionClose s)))) (\<lambda>_.
      seq (perform (returns_session R) (NewInteractiveSession config)) (\<lambda>s.
      assign_sess s))))"

section \<open>The notebook, cell by cell\<close>

text \<open>
  The code cells in the order of the notebook, each statement in its place. A cell that
  binds globals which a later cell reads returns their values, and the later cell takes
  them as arguments. An \<open>import\<close>, and an alias such as \<open>tfd = tfp.distributions\<close>, names a
  part of the library and leaves no trace.
\<close>

text \<open>\<^verbatim>\<open>plt.style.use('ggplot')\<close>, among the imports.\<close>

definition cell_imports :: "environment \<Rightarrow> unit prog" where
  "cell_imports R = perform (returns_none R) (StyleUse ''ggplot'')"

text \<open>
  \<^verbatim>\<open>
  def session_options(enable_gpu_ram_resizing=True, enable_xla=True): ...
  def reset_sess(config=None): ...
  reset_sess()
  \<close>
\<close>

definition cell_session :: "environment \<Rightarrow> unit prog" where
  "cell_session R =
     seq (assign ''session_options'' (Object ''function'')) (\<lambda>_.
     seq (assign ''reset_sess'' (Object ''function'')) (\<lambda>_.
     reset_sess R None))"

text \<open>
  \<^verbatim>\<open>
  class UnconstrainedDirichlet(tfd.TransformedDistribution): ...
  class MVNInverseTriL(tfd.TransformedDistribution): ...
  def make_tril(x, transform_fn=tf.abs): ...
  \<close>
\<close>

definition cell_transforms :: "unit prog" where
  "cell_transforms =
     seq (assign ''UnconstrainedDirichlet'' (Object ''class'')) (\<lambda>_.
     seq (assign ''MVNInverseTriL'' (Object ''class'')) (\<lambda>_.
     assign ''make_tril'' (Object ''function'')))"

text \<open>
  \<^verbatim>\<open>
  dtype = np.float32
  dims = 2
  components = 3
  \<close>
\<close>

definition cell_sizes :: "unit prog" where
  "cell_sizes =
     seq (assign ''dtype'' (Object ''np.float32'')) (\<lambda>_.
     seq (assign ''dims'' (Number (int dims))) (\<lambda>_.
     assign ''components'' (Number (int components))))"

text \<open>
  The cell of the priors \<open>rv_logits\<close>, \<open>rv_loc\<close> and \<open>rv_precision\<close>, given above.
\<close>

definition cell_priors :: "unit prog" where
  "cell_priors =
     seq (assign ''rv_logits'' (Dist rv_logits)) (\<lambda>_.
     seq (assign ''rv_loc'' (Dist rv_loc)) (\<lambda>_.
     assign ''rv_precision'' (Dist rv_precision)))"

text \<open>
  \<^verbatim>\<open>
  print(rv_logits)
  print(rv_loc)
  print(rv_precision)
  \<close>
\<close>

definition cell_print_priors :: "environment \<Rightarrow> unit prog" where
  "cell_print_priors R =
     seq (perform (returns_none R) (Print [Dist rv_logits])) (\<lambda>_.
     seq (perform (returns_none R) (Print [Dist rv_loc])) (\<lambda>_.
     perform (returns_none R) (Print [Dist rv_precision])))"

text \<open>\<^verbatim>\<open>def joint_log_prob(observations, logits, loc, flat_chol_precision): ...\<close>\<close>

definition cell_joint :: "unit prog" where
  "cell_joint = assign ''joint_log_prob'' (Object ''function'')"

text \<open>
  \<^verbatim>\<open>
  num_samples = 1000
  true_loc = np.array([[-2, -2], [0, 0], [2, 2]], dtype)
  random = np.random.RandomState(seed=42)
  true_hidden_component = random.randint(0, components, num_samples)
  observations = (true_loc[true_hidden_component] +
                  random.randn(num_samples, dims).astype(dtype))
  \<close>
  The cell returns \<open>observations\<close>. \<open>astype(dtype)\<close> changes the number format only.
\<close>

definition num_samples :: nat where
  "num_samples = 1000"

definition true_loc :: tensor where
  "true_loc = mat [[-2, -2], [0, 0], [2, 2]]"

definition cell_data :: "environment \<Rightarrow> library \<Rightarrow> tensor prog" where
  "cell_data R L =
     seq (assign ''num_samples'' (Number (int num_samples))) (\<lambda>_.
     seq (assign ''true_loc'' (Arr true_loc)) (\<lambda>_.
     seq (perform (returns_none R) (RandomState 42)) (\<lambda>_.
     seq (assign ''random'' (Object ''RandomState'')) (\<lambda>_.
     seq (perform (returns_array R) (Randint 0 components num_samples))
       (\<lambda>true_hidden_component.
     seq (assign ''true_hidden_component'' (Arr true_hidden_component)) (\<lambda>_.
     seq (lift (np_take L true_loc true_hidden_component)) (\<lambda>centres.
     seq (perform (returns_array R) (Randn num_samples dims)) (\<lambda>noise.
     seq (lift (np_add L centres noise)) (\<lambda>observations.
     seq (assign ''observations'' (Arr observations)) (\<lambda>_.
     lift (Returns observations)))))))))))"

text \<open>
  The cell of the closure \<open>unnormalized_posterior_log_prob\<close> and of \<open>initial_state\<close>, given
  above. It returns \<open>initial_state\<close>.
\<close>

definition cell_closure :: "library \<Rightarrow> tensor \<Rightarrow> tensor list prog" where
  "cell_closure L observations =
     seq (assign ''unnormalized_posterior_log_prob''
            (Fn (unnormalized_posterior_log_prob L observations))) (\<lambda>_.
     seq (lift (initial_state L)) (\<lambda>state.
     seq (assign ''initial_state'' (Arrs state)) (\<lambda>_.
     lift (Returns state))))"

text \<open>
  \<^verbatim>\<open>
  [logits, loc, flat_chol_precision], kernel_results = tfp.mcmc.sample_chain(
      num_results=2000,
      num_burnin_steps=500,
      kernel=tfp.mcmc.HamiltonianMonteCarlo(
          target_log_prob_fn=unnormalized_posterior_log_prob,
          step_size=0.0249,
          num_leapfrog_steps=5),
      current_state=initial_state)
  \<close>
  The cell returns the result of \<open>sample_chain\<close>: the list of the three sampled states
  and \<open>kernel_results.is_accepted\<close>.
\<close>

definition cell_sample ::
  "environment \<Rightarrow> library \<Rightarrow> tensor \<Rightarrow> tensor list \<Rightarrow> (tensor list \<times> tensor) prog" where
  "cell_sample R L observations state =
     seq (perform (returns_chain R)
            (SampleChain 2000 500
               \<lparr>target_log_prob_fn = unnormalized_posterior_log_prob L observations,
                step_size = 249 / 10000,
                num_leapfrog_steps = 5\<rparr>
               state)) (\<lambda>result.
     seq (lift (unpack 3 (fst result))) (\<lambda>states.
     seq (assign ''logits'' (Arr (states ! 0))) (\<lambda>_.
     seq (assign ''loc'' (Arr (states ! 1))) (\<lambda>_.
     seq (assign ''flat_chol_precision'' (Arr (states ! 2))) (\<lambda>_.
     seq (assign ''kernel_results'' (Arr (snd result))) (\<lambda>_.
     lift (Returns result)))))))"

text \<open>
  \<^verbatim>\<open>
  probs = tfb.SoftmaxCentered().forward(logits)
  chol_precision = make_tril(flat_chol_precision)

  acceptance_rate = tf.reduce_mean(tf.to_float(kernel_results.is_accepted))
  mean_logits = tf.reduce_mean(logits, axis=0)
  mean_probs = tf.reduce_mean(probs, axis=0)
  mean_loc = tf.reduce_mean(loc, axis=0)
  mean_chol_precision = tf.reduce_mean(chol_precision, axis=0)
  \<close>
  The cell takes the result of \<open>sample_chain\<close> and returns the list that the next cell hands
  to \<open>sess.run\<close>.
\<close>

definition tf_to_float :: "tensor \<Rightarrow> tensor" where
  "tf_to_float t = t"

definition cell_reduce :: "library \<Rightarrow> tensor list \<times> tensor \<Rightarrow> tensor list prog" where
  "cell_reduce L result =
     seq (lift (softmax_centered_forward L (fst result ! 0))) (\<lambda>probs.
     seq (assign ''probs'' (Arr probs)) (\<lambda>_.
     seq (lift (make_tril L (fst result ! 2) (Some tf_abs))) (\<lambda>chol_precision.
     seq (assign ''chol_precision'' (Arr chol_precision)) (\<lambda>_.
     seq (lift (reduce_mean L (tf_to_float (snd result)) None)) (\<lambda>acceptance_rate.
     seq (assign ''acceptance_rate'' (Arr acceptance_rate)) (\<lambda>_.
     seq (lift (reduce_mean L (fst result ! 0) (Some 0))) (\<lambda>mean_logits.
     seq (assign ''mean_logits'' (Arr mean_logits)) (\<lambda>_.
     seq (lift (reduce_mean L probs (Some 0))) (\<lambda>mean_probs.
     seq (assign ''mean_probs'' (Arr mean_probs)) (\<lambda>_.
     seq (lift (reduce_mean L (fst result ! 1) (Some 0))) (\<lambda>mean_loc.
     seq (assign ''mean_loc'' (Arr mean_loc)) (\<lambda>_.
     seq (lift (reduce_mean L chol_precision (Some 0))) (\<lambda>mean_chol_precision.
     seq (assign ''mean_chol_precision'' (Arr mean_chol_precision)) (\<lambda>_.
     lift (Returns [acceptance_rate, mean_logits, mean_probs, mean_loc,
                    mean_chol_precision, probs, fst result ! 1, chol_precision])
     ))))))))))))))"

text \<open>
  \<^verbatim>\<open>
  [acceptance_rate_, mean_logits_, mean_probs_, mean_loc_, mean_chol_precision_,
   probs_, loc_, chol_precision_] = sess.run([
      acceptance_rate, mean_logits, mean_probs, mean_loc, mean_chol_precision,
      probs, loc, chol_precision])
  \<close>
\<close>

definition cell_run :: "environment \<Rightarrow> tensor list \<Rightarrow> tensor list prog" where
  "cell_run R fetches =
     seq read_sess (\<lambda>s.
     seq (perform (returns_arrays R) (SessionRun s fetches)) (\<lambda>fetched.
     seq (lift (unpack 8 fetched)) (\<lambda>values.
     seq (assign ''acceptance_rate_'' (Arr (values ! 0))) (\<lambda>_.
     seq (assign ''mean_logits_'' (Arr (values ! 1))) (\<lambda>_.
     seq (assign ''mean_probs_'' (Arr (values ! 2))) (\<lambda>_.
     seq (assign ''mean_loc_'' (Arr (values ! 3))) (\<lambda>_.
     seq (assign ''mean_chol_precision_'' (Arr (values ! 4))) (\<lambda>_.
     seq (assign ''probs_'' (Arr (values ! 5))) (\<lambda>_.
     seq (assign ''loc_'' (Arr (values ! 6))) (\<lambda>_.
     seq (assign ''chol_precision_'' (Arr (values ! 7))) (\<lambda>_.
     lift (Returns values))))))))))))"

text \<open>
  \<^verbatim>\<open>
  print('    acceptance_rate:', acceptance_rate_)
  print('         avg logits:', mean_logits_)
  print('          avg probs:', mean_probs_)
  print('\n            avg loc:\n', mean_loc_)
  print('\navg chol(precision):\n', mean_chol_precision_)
  \<close>
\<close>

definition cell_print_means :: "environment \<Rightarrow> tensor list \<Rightarrow> unit prog" where
  "cell_print_means R values =
     seq (perform (returns_none R)
            (Print [Str ''    acceptance_rate:'', Arr (values ! 0)])) (\<lambda>_.
     seq (perform (returns_none R)
            (Print [Str ''         avg logits:'', Arr (values ! 1)])) (\<lambda>_.
     seq (perform (returns_none R)
            (Print [Str ''          avg probs:'', Arr (values ! 2)])) (\<lambda>_.
     seq (perform (returns_none R)
            (Print [Str (CHR 0x0A # ''            avg loc:'' @ [CHR 0x0A]),
                    Arr (values ! 3)])) (\<lambda>_.
     perform (returns_none R)
       (Print [Str (CHR 0x0A # ''avg chol(precision):'' @ [CHR 0x0A]),
               Arr (values ! 4)])))))"

text \<open>
  \<^verbatim>\<open>
  ax = sns.kdeplot(loc_[:,0,0], loc_[:,0,1], shade=True)
  ax = sns.kdeplot(loc_[:,1,0], loc_[:,1,1], shade=True)
  ax = sns.kdeplot(loc_[:,2,0], loc_[:,2,1], shade=True)
  plt.title('KDE of loc draws');
  \<close>
\<close>

definition kdeplot :: "environment \<Rightarrow> library \<Rightarrow> tensor \<Rightarrow> nat \<Rightarrow> unit prog" where
  "kdeplot R L loc_run k =
     seq (lift (np_slice L loc_run k 0)) (\<lambda>x.
     seq (lift (np_slice L loc_run k 1)) (\<lambda>y.
     seq (perform (returns_none R) (KdePlot x y True)) (\<lambda>_.
     assign ''ax'' (Object ''Axes''))))"

definition cell_plot :: "environment \<Rightarrow> library \<Rightarrow> tensor list \<Rightarrow> unit prog" where
  "cell_plot R L values =
     seq (kdeplot R L (values ! 6) 0) (\<lambda>_.
     seq (kdeplot R L (values ! 6) 1) (\<lambda>_.
     seq (kdeplot R L (values ! 6) 2) (\<lambda>_.
     perform (returns_none R) (PlotTitle ''KDE of loc draws''))))"

definition notebook :: "environment \<Rightarrow> library \<Rightarrow> unit prog" where
  "notebook R L =
     seq (cell_imports R) (\<lambda>_.
     seq (cell_session R) (\<lambda>_.
     seq cell_transforms (\<lambda>_.
     seq cell_sizes (\<lambda>_.
     seq cell_priors (\<lambda>_.
     seq (cell_print_priors R) (\<lambda>_.
     seq cell_joint (\<lambda>_.
     seq (cell_data R L) (\<lambda>observations.
     seq (cell_closure L observations) (\<lambda>initial_state.
     seq (cell_sample R L observations initial_state) (\<lambda>result.
     seq (cell_reduce L result) (\<lambda>fetches.
     seq (cell_run R fetches) (\<lambda>values.
     seq (cell_print_means R values) (\<lambda>_.
     cell_plot R L values)))))))))))))"

section \<open>An instance of the library and of the environment\<close>

text \<open>
  The properties below hold for every library and every environment. To apply them to
  concrete inputs, here is one library and one environment. \<open>fill_triangular\<close> lays a
  vector of length \<open>n (n + 1) / 2\<close> out as the library documents it (the vector \<open>1, \<dots>, 6\<close>
  gives the rows \<open>4 0 0\<close>, \<open>6 5 0\<close>, \<open>3 2 1\<close>) and \<open>fill_triangular_inverse\<close> reads the
  vector back. The other functions stand in for the library's: they are chosen so that
  the calls of the notebook return, not for their values.
\<close>

definition triangle_side :: "nat \<Rightarrow> nat option" where
  "triangle_side m = find (\<lambda>n. n * (n + 1) div 2 = m) [0..<Suc m]"

definition fill_triangular_rows :: "real list \<Rightarrow> tensor option" where
  "fill_triangular_rows xs =
     (case triangle_side (length xs) of
        None \<Rightarrow> None
      | Some n \<Rightarrow>
          (let final = drop n xs @ rev xs
           in Some (mat (map (\<lambda>i. map (\<lambda>j. if j \<le> i then final ! (i * n + j) else 0) [0..<n])
                           [0..<n]))))"

definition fill_triangular_inverse_rows :: "real list list \<Rightarrow> tensor option" where
  "fill_triangular_inverse_rows rows =
     (let n = length rows; m = n * (n + 1) div 2
      in if ncols rows \<noteq> n then None
         else Some (vec (map (\<lambda>k.
                if k < n then rows ! (n - 1) ! (n - 1 - k)
                else if (k - n) mod n \<le> (k - n) div n
                     then rows ! ((k - n) div n) ! ((k - n) mod n)
                     else rows ! ((2 * m - n - 1 - k) div n) ! ((2 * m - n - 1 - k) mod n))
              [0..<m])))"

definition example_log_prob :: "distribution \<Rightarrow> tensor \<Rightarrow> tensor outcome" where
  "example_log_prob d x =
     or_raise ValueError
       (let density = (\<lambda>rs. Some (Scalar (- sum_list (map (\<lambda>r. r * r) rs) / 2)));
            total = (\<lambda>rs. Some (Scalar (sum_list rs)))
        in case d of
             WishartCholesky df scale chol \<Rightarrow>
               (case last_axis density x of None \<Rightarrow> None | Some y \<Rightarrow> last_axis total y)
           | _ \<Rightarrow> last_axis density x)"

definition example_first :: "tensor \<Rightarrow> tensor outcome" where
  "example_first t = (case t of Tensor (u # us) \<Rightarrow> Returns u | _ \<Rightarrow> Raises ValueError)"

definition example_library :: library where
  "example_library =
     \<lparr>fill_triangular = (\<lambda>x. or_raise ValueError (last_axis fill_triangular_rows x)),
      fill_triangular_inverse =
        (\<lambda>x. or_raise ValueError (last_two_axes fill_triangular_inverse_rows x)),
      log_prob = example_log_prob,
      softmax_centered_forward = pad,
      reduce_mean = (\<lambda>t axis. example_first t),
      np_take = (\<lambda>a indices. Returns a),
      np_add = (\<lambda>a b. Returns b),
      np_slice = (\<lambda>a k j. example_first a)\<rparr>"

text \<open>
  The environment: every call returns; a new session is numbered by the length of the
  history, drawn arrays are small, the chain hands back its initial state as the only
  sample, and \<open>sess.run\<close> returns what it is asked to fetch.
\<close>

definition example_environment :: environment where
  "example_environment =
     \<lparr>returns_none = (\<lambda>h. Returns ()),
      returns_session = (\<lambda>h. Returns (Session (length h))),
      returns_array = (\<lambda>h. Returns (mat [[0, 0], [2, 1]])),
      returns_arrays =
        (\<lambda>h. case last h of SessionRun s fetches \<Rightarrow> Returns fetches | _ \<Rightarrow> Raises TypeError),
      returns_chain =
        (\<lambda>h. case last h of
                SampleChain n b hmc state \<Rightarrow> Returns (map (\<lambda>t. Tensor [t]) state, vec [1])
              | _ \<Rightarrow> Raises TypeError)\<rparr>"

text \<open>
  A library that tells how many logits the \<open>Categorical\<close> of a mixture is given: its
  \<open>log_prob\<close> of a mixture raises an error numbered by that count.
\<close>

definition logits_probe_library :: library where
  "logits_probe_library =
     example_library
       \<lparr>log_prob :=
          (\<lambda>d x. case d of
                    MixtureSameFamily (Categorical (Tensor ts)) c \<Rightarrow>
                      Raises (LibraryError (length ts))
                  | _ \<Rightarrow> log_prob example_library d x)\<rparr>"

definition fresh_world :: world where
  "fresh_world = \<lparr>history = [], sess = None\<rparr>"

section \<open>Notions used in the statements\<close>

text \<open>
  The history once \<open>reset_sess\<close> has reset the graph and tried to close the session that
  the global \<open>sess\<close> held, if it held one.
\<close>

definition history_after_close :: "world \<Rightarrow> call list" where
  "history_after_close w =
     history w @ [ResetDefaultGraph]
       @ (case sess w of None \<Rightarrow> [] | Some s \<Rightarrow> [SessionClose s])"

text \<open>An environment in which every \<open>sess.close()\<close> raises.\<close>

definition failing_close_environment :: environment where
  "failing_close_environment =
     example_environment
       \<lparr>returns_none :=
          (\<lambda>h. case last h of SessionClose s \<Rightarrow> Raises (LibraryError 1) | _ \<Rightarrow> Returns ())\<rparr>"

text \<open>
  A library, or an environment, none of whose calls fails to return: each returns a value
  or raises.
\<close>

definition library_terminates :: "library \<Rightarrow> bool" where
  "library_terminates L \<longleftrightarrow>
     (\<forall>x. fill_triangular L x \<noteq> Diverges)
     \<and> (\<forall>x. fill_triangular_inverse L x \<noteq> Diverges)
     \<and> (\<forall>d x. log_prob L d x \<noteq> Diverges)
     \<and> (\<forall>x. softmax_centered_forward L x \<noteq> Diverges)
     \<and> (\<forall>x axis. reduce_mean L x axis \<noteq> Diverges)
     \<and> (\<forall>a indices. np_take L a indices \<noteq> Diverges)
     \<and> (\<forall>a b. np_add L a b \<noteq> Diverges)
     \<and> (\<forall>a k j. np_slice L a k j \<noteq> Diverges)"

definition environment_terminates :: "environment \<Rightarrow> bool" where
  "environment_terminates R \<longleftrightarrow>
     (\<forall>h. returns_none R h \<noteq> Diverges)
     \<and> (\<forall>h. returns_session R h \<noteq> Diverges)
     \<and> (\<forall>h. returns_array R h \<noteq> Diverges)
     \<and> (\<forall>h. returns_arrays R h \<noteq> Diverges)
     \<and> (\<forall>h. returns_chain R h \<noteq> Diverges)"





















section \<open>Properties\<close>

subsection \<open>Session options\<close>

text \<open>
  C10. \<open>session_options\<close> is a function of its two flags alone; in the configuration it
  returns, \<open>log_device_placement\<close> is always on, \<open>gpu_options.allow_growth\<close> is on exactly
  when \<open>enable_gpu_ram_resizing\<close> is, and the XLA \<open>global_jit_level\<close> is \<open>ON_1\<close> exactly
  when \<open>enable_xla\<close> is.
\<close>

theorem session_options_flags:
  "log_device_placement (session_options g x) = True
   \<and> allow_growth (gpu_options (session_options g x)) = g
   \<and> (global_jit_level (optimizer_options (graph_options (session_options g x))) = ON_1) = x"
  by (cases g; cases x; simp add: session_options_def tf_ConfigProto_def)

subsection \<open>Vectors and matrices as tensors\<close>

lemma those_scalars_comp: "those (map (scalar_of \<circ> Scalar) rs) = Some rs"
  by (induction rs) simp_all

lemma vector_of_vec: "vector_of (vec rs) = Some rs"
  by (simp add: vec_def those_scalars_comp)

lemma those_vectors_comp: "those (map (vector_of \<circ> vec) rows) = Some rows"
  by (induction rows) (simp_all add: vector_of_vec)

subsection \<open>The diagonal of a square matrix\<close>

lemma ncols_square: "length rows = d \<Longrightarrow> rectangular d rows \<Longrightarrow> ncols rows = d"
  by (cases rows) (simp_all add: ncols_def rectangular_def)

lemma matrix_diag_part_mat:
  "rectangular (ncols rows) rows \<Longrightarrow> tf_matrix_diag_part (mat rows) = Returns (vec (diag_part rows))"
  by (simp add: tf_matrix_diag_part_def matrix_diag_part_def mat_def those_vectors_comp or_raise_def)

lemma set_diag_rows:
  "set_diag (Tensor (map vec rows)) (Tensor (map Scalar d)) =
     (if rectangular (ncols rows) rows \<and> length d = min (length rows) (ncols rows)
      then Some (mat (with_diag rows d)) else None)"
  by (simp add: those_vectors_comp those_scalars_comp)

lemma set_diag_mat:
  assumes "rectangular (ncols rows) rows" "length d = min (length rows) (ncols rows)"
  shows "tf_set_diag (mat rows) (vec d) = Returns (mat (with_diag rows d))"
proof -
  have "set_diag (mat rows) (vec d) = set_diag (Tensor (map vec rows)) (Tensor (map Scalar d))"
    by (simp add: mat_def vec_def)
  also have "\<dots> = Some (mat (with_diag rows d))"
    using assms by (simp only: set_diag_rows if_True simp_thms)
  finally show ?thesis by (simp add: tf_set_diag_def or_raise_def)
qed

lemma tf_abs_vec: "tf_abs (vec rs) = Returns (vec (map abs rs))"
  by (simp add: tf_abs_def vec_def)

lemma make_tril_mat:
  assumes "fill_triangular L x = Returns (mat Y)" "length Y = d" "rectangular d Y"
  shows "make_tril L x (Some tf_abs) = Returns (mat (with_diag Y (map abs (diag_part Y))))"
proof -
  have n: "ncols Y = d" using assms by (simp add: ncols_square)
  have len: "length (map abs (diag_part Y)) = min (length Y) (ncols Y)"
    using assms n by (simp add: diag_part_def)
  show ?thesis
    using assms n len
    by (simp add: make_tril_def bind_def matrix_diag_part_mat tf_abs_vec set_diag_mat)
qed

lemma with_diag_length: "length (with_diag rows d) = length rows"
  by (simp add: with_diag_def)

lemma with_diag_row:
  "i < length rows \<Longrightarrow> i < length d \<Longrightarrow> with_diag rows d ! i = (rows ! i)[i := d ! i]"
  by (simp add: with_diag_def)

lemma rectangular_nth: "rectangular n rows \<Longrightarrow> i < length rows \<Longrightarrow> length (rows ! i) = n"
  by (simp add: rectangular_def list_all_length)

lemma rectangular_with_diag: "rectangular n rows \<Longrightarrow> rectangular n (with_diag rows d)"
  by (simp add: rectangular_def list_all_length with_diag_def)

lemma lower_triangular_nth:
  "lower_triangular rows \<Longrightarrow> i < length rows \<Longrightarrow> j < length (rows ! i) \<Longrightarrow> i < j \<Longrightarrow> rows ! i ! j = 0"
  by (simp add: lower_triangular_def list_all_length)

text \<open>
  C8. Let \<open>x\<close> be a flat vector of length \<open>d (d + 1) / 2\<close> for which the library's
  \<open>fill_triangular\<close> returns a lower-triangular \<open>d\<close> by \<open>d\<close> matrix \<open>Y\<close>. Then
  \<open>make_tril x\<close> with the default \<open>transform_fn = tf.abs\<close> returns a lower-triangular \<open>d\<close> by
  \<open>d\<close> matrix that agrees with \<open>Y\<close> strictly below the diagonal and whose diagonal entries
  are the absolute values of those of \<open>Y\<close>, hence not negative. With
  \<open>transform_fn = None\<close>, \<open>make_tril x\<close> is \<open>fill_triangular x\<close>.
\<close>

theorem make_tril_abs_diag:
  assumes lib: "fill_triangular L (vec x) = Returns (mat Y)"
    and len: "length x = d * (d + 1) div 2"
    and square: "length Y = d" "rectangular d Y"
    and lower: "lower_triangular Y"
  shows "(\<exists>Z. make_tril L (vec x) (Some tf_abs) = Returns (mat Z)
           \<and> length Z = d \<and> rectangular d Z \<and> lower_triangular Z
           \<and> (\<forall>i<d. \<forall>j<i. Z ! i ! j = Y ! i ! j)
           \<and> (\<forall>i<d. Z ! i ! i = \<bar>Y ! i ! i\<bar> \<and> 0 \<le> Z ! i ! i))
         \<and> make_tril L (vec x) None = fill_triangular L (vec x)"
proof -
  define Z where "Z = with_diag Y (map abs (diag_part Y))"
  have n: "ncols Y = d" using square by (simp add: ncols_square)
  have dl: "length (map abs (diag_part Y)) = d" using square n by (simp add: diag_part_def)
  have run: "make_tril L (vec x) (Some tf_abs) = Returns (mat Z)"
    unfolding Z_def using lib square by (rule make_tril_mat)
  have lz: "length Z = d" by (simp add: Z_def with_diag_length square)
  have rz: "rectangular d Z" unfolding Z_def using square(2) by (rule rectangular_with_diag)
  have row: "Z ! i = (Y ! i)[i := \<bar>Y ! i ! i\<bar>]" if "i < d" for i
    using that square n by (simp add: Z_def with_diag_row dl diag_part_def)
  have rowlen: "length (Y ! i) = d" if "i < d" for i
    using that square by (simp add: rectangular_nth)
  have below: "\<forall>i<d. \<forall>j<i. Z ! i ! j = Y ! i ! j"
    by (simp add: row)
  have diag: "\<forall>i<d. Z ! i ! i = \<bar>Y ! i ! i\<bar> \<and> 0 \<le> Z ! i ! i"
    by (simp add: row rowlen)
  have lowz: "lower_triangular Z"
    unfolding lower_triangular_def list_all_length
  proof (intro allI impI)
    fix i j
    assume i: "i < length [0..<length Z]" and j: "j < length [0..<length (Z ! ([0..<length Z] ! i))]"
      and ij: "[0..<length Z] ! i < [0..<length (Z ! ([0..<length Z] ! i))] ! j"
    from i have i': "i < d" by (simp add: lz)
    from j i' have j': "j < d" by (simp add: lz row rowlen)
    from ij i' j' have lt: "i < j" by (simp add: lz row rowlen)
    have "Y ! i ! j = 0"
      using lower i' j' lt square rowlen by (simp add: lower_triangular_nth)
    with i' j' lt show "Z ! ([0..<length Z] ! i) ! ([0..<length (Z ! ([0..<length Z] ! i))] ! j) = 0"
      by (simp add: lz row rowlen)
  qed
  have none: "make_tril L (vec x) None = fill_triangular L (vec x)"
    by (simp add: make_tril_def bind_def split: outcome.splits)
  from run lz rz lowz below diag none show ?thesis by blast
qed


lemma example_fill_triangular_3:
  "fill_triangular example_library (vec [a, b, c]) = Returns (mat [[c, 0], [b, a]])"
  by (simp add: example_library_def vec_def or_raise_def fill_triangular_rows_def
      triangle_side_def mat_def)

theorem make_tril_abs_diag_witness:
  "fill_triangular example_library (vec [1, - 2, - 3]) = Returns (mat [[- 3, 0], [- 2, 1]])
   \<and> (\<exists>Z. make_tril example_library (vec [1, - 2, - 3]) (Some tf_abs) = Returns (mat Z)
          \<and> length Z = 2 \<and> rectangular 2 Z
          \<and> Z ! 0 ! 0 = 3 \<and> Z ! 0 ! 1 = 0 \<and> Z ! 1 ! 0 = - 2 \<and> Z ! 1 ! 1 = 1)
   \<and> make_tril example_library (vec [1, - 2, - 3]) None = Returns (mat [[- 3, 0], [- 2, 1]])"
proof -
  let ?x = "[1, - 2, - 3 :: real]"
  let ?Y = "[[- 3, 0], [- 2, 1 :: real]]"
  have lib: "fill_triangular example_library (vec ?x) = Returns (mat ?Y)"
    by (rule example_fill_triangular_3)
  have len: "length ?x = 2 * (2 + 1) div 2" by simp
  have sq: "length ?Y = 2" "rectangular 2 ?Y" by (simp_all add: rectangular_def)
  have low: "lower_triangular ?Y"
    by (simp add: lower_triangular_def)
  from make_tril_abs_diag [OF lib len sq low]
  obtain Z where run: "make_tril example_library (vec ?x) (Some tf_abs) = Returns (mat Z)"
    and lz: "length Z = 2" and rz: "rectangular 2 Z"
    and below: "\<forall>i<2. \<forall>j<i. Z ! i ! j = ?Y ! i ! j"
    and diag: "\<forall>i<2. Z ! i ! i = \<bar>?Y ! i ! i\<bar> \<and> 0 \<le> Z ! i ! i"
    and lowz: "lower_triangular Z"
    and none: "make_tril example_library (vec ?x) None = fill_triangular example_library (vec ?x)"
    by blast
  have z00: "Z ! 0 ! 0 = 3" using diag [rule_format, of 0] by simp
  have z11: "Z ! 1 ! 1 = 1" using diag [rule_format, of 1] by simp
  have z10: "Z ! 1 ! 0 = - 2" using below [rule_format, of 1 0] by simp
  have "length (Z ! 0) = 2" using rz lz by (simp add: rectangular_nth)
  then have z01: "Z ! 0 ! 1 = 0" using lowz lz by (simp add: lower_triangular_nth)
  from lib run lz rz z00 z01 z10 z11 none show ?thesis by auto
qed

subsection \<open>The joint log-density\<close>

lemma concat_last2_vec: "concat_last2 (vec a) (vec b) = Some (vec (a @ b))"
  by (simp add: vec_def those_scalars_comp)

lemma concat_last2_vec_single: "concat_last2 (vec a) (Tensor [Scalar b]) = Some (vec (a @ [b]))"
  using concat_last2_vec [of a "[b]"] by (simp add: vec_def)

lemma concat_last_parts:
  "concat_last [vec a, Tensor [Scalar b], vec c, vec d] = Some (vec (a @ [b] @ c @ d))"
proof -
  have v: "vec (a @ [b] @ c @ d) = Tensor (map Scalar (a @ [b] @ c @ d))"
    by (simp add: vec_def)
  show ?thesis
    by (simp add: concat_last2_vec_single concat_last2_vec) (simp add: vec_def)
qed

lemma tf_concat_parts:
  "tf_concat [vec a, Tensor [Scalar b], vec c, vec d] = Returns (vec (a @ [b] @ c @ d))"
  by (simp only: tf_concat_def concat_last_parts or_raise_def option.case)

lemma tf_reduce_sum_vec: "tf_reduce_sum (vec v) = Returns (Scalar (sum_list v))"
  by (simp add: tf_reduce_sum_def or_raise_def vec_def those_scalars_comp)

lemma pad_vec: "pad (vec ls) = Returns (vec (ls @ [0]))"
  by (simp add: pad_def or_raise_def those_scalars_comp vec_def[of ls])

text \<open>
  C1. \<open>joint_log_prob\<close> is the sum of four log-density parts, each obtained from a
  distribution object of the library: the \<open>MixtureSameFamily\<close> log-density of the
  observations, the \<open>UnconstrainedDirichlet\<close> prior at \<open>logits\<close>, the independent normal
  prior at \<open>loc\<close> and the \<open>WishartCholesky\<close> prior at \<open>make_tril flat_chol_precision\<close>.
  Whenever the library returns these parts (a vector, a scalar, and two vectors), the
  result is the sum over their concatenation, the scalar taking one place in it.
\<close>

theorem joint_log_prob_sum:
  assumes "make_tril L flat_chol_precision (Some tf_abs) = Returns chol_precision"
    and "pad logits = Returns padded"
    and "log_prob L (MixtureSameFamily (Categorical padded)
                       (MVNInverseTriL loc chol_precision None)) observations
         = Returns (vec p_observations)"
    and "log_prob L rv_logits logits = Returns (Scalar p_logits)"
    and "log_prob L rv_loc loc = Returns (vec p_loc)"
    and "log_prob L rv_precision chol_precision = Returns (vec p_precision)"
  shows "joint_log_prob L observations logits loc flat_chol_precision
         = Returns (Scalar (sum_list (p_observations @ [p_logits] @ p_loc @ p_precision)))
       \<and> joint_log_prob L observations logits loc flat_chol_precision
         = Returns (Scalar (sum_list p_observations + p_logits + sum_list p_loc
                            + sum_list p_precision))"
  using assms
  by (simp add: joint_log_prob_def rv_observations_def bind_def tf_concat_parts
      tf_reduce_sum_vec)

text \<open>
  C5. The three priors and their fixed parameters: \<open>rv_logits\<close> is an
  \<open>UnconstrainedDirichlet\<close> whose concentration has three entries, each \<open>1/10\<close>; \<open>rv_loc\<close>
  is an independent normal with the three locations \<open>(-1, -1)\<close>, \<open>(0, 0)\<close>, \<open>(1, 1)\<close> and
  unit scale; \<open>rv_precision\<close> is a \<open>WishartCholesky\<close> with five degrees of freedom, the
  two by two identity as the scale of each of the three components, and
  \<open>cholesky_input_output_matrices\<close> set.
\<close>

theorem prior_parameters:
  "rv_logits = UnconstrainedDirichlet (vec [1 / 10, 1 / 10, 1 / 10]) None
   \<and> rv_loc = Independent (Normal (mat [[- 1, - 1], [0, 0], [1, 1]])
                                    (mat [[1, 1], [1, 1], [1, 1]])) 1
   \<and> rv_precision = WishartCholesky 5
        (Tensor [mat [[1, 0], [0, 1]], mat [[1, 0], [0, 1]], mat [[1, 0], [0, 1]]]) True"
  by (simp add: rv_logits_def rv_loc_def rv_precision_def components_def dims_def
      np_div_def np_ones_def np_zeros_def np_neg_def np_stack_def tf_ones_def np_eye_def
      vec_def mat_def numeral_3_eq_3 numeral_2_eq_2)

text \<open>
  C2. The closure pins down the observations only: applied to \<open>logits\<close>, \<open>loc\<close> and
  \<open>flat_chol_precision\<close> it is \<open>joint_log_prob\<close> at the observations and these three, and
  it accepts no other number of arguments.
\<close>

theorem closure_pins_observations:
  "unnormalized_posterior_log_prob L observations [logits, loc, flat_chol_precision]
     = joint_log_prob L observations logits loc flat_chol_precision
   \<and> (length args \<noteq> 3 \<longrightarrow>
        unnormalized_posterior_log_prob L observations args = Raises TypeError)"
  by (auto simp: unnormalized_posterior_log_prob_def split: list.splits)

lemma bind_Returns: "bind (Returns a) f = f a"
  by (simp add: bind_def)

lemma joint_log_prob_vector_logits:
  "joint_log_prob L observations (vec ls) loc flat_chol_precision
   = bind (make_tril L flat_chol_precision (Some tf_abs)) (\<lambda>chol_precision.
     bind (log_prob L (MixtureSameFamily (Categorical (vec (ls @ [0])))
                         (MVNInverseTriL loc chol_precision None)) observations)
       (\<lambda>part_observations.
     bind (log_prob L rv_logits (vec ls)) (\<lambda>lp_logits.
     bind (log_prob L rv_loc loc) (\<lambda>part_loc.
     bind (log_prob L rv_precision chol_precision) (\<lambda>part_precision.
     bind (tf_concat [part_observations, expand_last lp_logits, part_loc, part_precision])
       tf_reduce_sum)))))"
  by (simp add: joint_log_prob_def rv_observations_def pad_vec bind_Returns)

lemma initial_state_logits:
  assumes "initial_state L = Returns state"
  shows "\<exists>loc flat. state = [vec (replicate (components - 1) 0), loc, flat]"
  using assms by (auto simp: initial_state_def bind_def vec_def split: outcome.splits)

text \<open>
  C9. The logits of the sampled state have one entry fewer than there are components.
  The initial state starts with a vector of \<open>components - 1\<close> zeros. Given a vector of
  logits, \<open>joint_log_prob\<close> asks the library for the density of the observations under the
  mixture whose \<open>Categorical\<close> has as its logits the given logits with one zero appended
  at the back, which makes \<open>components\<close> of them when \<open>components - 1\<close> are given, while the
  prior of the logits is asked for its density at the given logits themselves. An
  exception of the library for that mixture is the result of \<open>joint_log_prob\<close>.
\<close>

theorem logits_convention:
  "(initial_state L = Returns state \<longrightarrow>
      (\<exists>loc flat. state = [vec (replicate (components - 1) 0), loc, flat]))
   \<and> joint_log_prob L observations (vec ls) loc flat_chol_precision
     = bind (make_tril L flat_chol_precision (Some tf_abs)) (\<lambda>chol_precision.
       bind (log_prob L (MixtureSameFamily (Categorical (vec (ls @ [0])))
                           (MVNInverseTriL loc chol_precision None)) observations)
         (\<lambda>part_observations.
       bind (log_prob L rv_logits (vec ls)) (\<lambda>lp_logits.
       bind (log_prob L rv_loc loc) (\<lambda>part_loc.
       bind (log_prob L rv_precision chol_precision) (\<lambda>part_precision.
       bind (tf_concat [part_observations, expand_last lp_logits, part_loc, part_precision])
         tf_reduce_sum)))))
   \<and> (make_tril L flat_chol_precision (Some tf_abs) = Returns chol_precision
      \<longrightarrow> log_prob L (MixtureSameFamily (Categorical (vec (ls @ [0])))
                         (MVNInverseTriL loc chol_precision None)) observations = Raises e
      \<longrightarrow> joint_log_prob L observations (vec ls) loc flat_chol_precision = Raises e)
   \<and> (length ls = components - 1 \<longrightarrow> length (ls @ [0]) = components)"
proof (intro conjI impI)
  assume "initial_state L = Returns state"
  then show "\<exists>loc flat. state = [vec (replicate (components - 1) 0), loc, flat]"
    by (rule initial_state_logits)
next
  show "joint_log_prob L observations (vec ls) loc flat_chol_precision
     = bind (make_tril L flat_chol_precision (Some tf_abs)) (\<lambda>chol_precision.
       bind (log_prob L (MixtureSameFamily (Categorical (vec (ls @ [0])))
                           (MVNInverseTriL loc chol_precision None)) observations)
         (\<lambda>part_observations.
       bind (log_prob L rv_logits (vec ls)) (\<lambda>lp_logits.
       bind (log_prob L rv_loc loc) (\<lambda>part_loc.
       bind (log_prob L rv_precision chol_precision) (\<lambda>part_precision.
       bind (tf_concat [part_observations, expand_last lp_logits, part_loc, part_precision])
         tf_reduce_sum)))))"
    by (rule joint_log_prob_vector_logits)
next
  assume "make_tril L flat_chol_precision (Some tf_abs) = Returns chol_precision"
    and "log_prob L (MixtureSameFamily (Categorical (vec (ls @ [0])))
                       (MVNInverseTriL loc chol_precision None)) observations = Raises e"
  then show "joint_log_prob L observations (vec ls) loc flat_chol_precision = Raises e"
    by (simp add: joint_log_prob_vector_logits bind_def)
next
  assume "length ls = components - 1"
  then show "length (ls @ [0]) = components"
    by (simp add: components_def)
qed


lemma example_make_tril_batch:
  "make_tril example_library (mat [[1, 0, 1], [1, 0, 1], [1, 0, - 1]]) (Some tf_abs)
   = Returns (Tensor [mat [[1, 0], [0, 1]], mat [[1, 0], [0, 1]], mat [[1, 0], [0, 1]]])"
  by (simp add: make_tril_def bind_def example_library_def or_raise_def mat_def vec_def
      fill_triangular_rows_def triangle_side_def tf_matrix_diag_part_def matrix_diag_part_def
      rectangular_def ncols_def diag_part_def tf_abs_def tf_set_diag_def with_diag_def)

lemma example_log_prob_values:
  "log_prob example_library
     (MixtureSameFamily (Categorical (vec [0, 0, 0]))
        (MVNInverseTriL (mat [[- 2, - 2], [0, 0], [2, 2]])
           (Tensor [mat [[1, 0], [0, 1]], mat [[1, 0], [0, 1]], mat [[1, 0], [0, 1]]]) None))
     (mat [[0, 1], [1, 0]]) = Returns (vec [- 1 / 2, - 1 / 2])"
  "log_prob example_library rv_logits (vec [0, 0]) = Returns (Scalar 0)"
  "log_prob example_library rv_loc (mat [[- 2, - 2], [0, 0], [2, 2]])
     = Returns (vec [- 4, 0, - 4])"
  "log_prob example_library rv_precision
     (Tensor [mat [[1, 0], [0, 1]], mat [[1, 0], [0, 1]], mat [[1, 0], [0, 1]]])
     = Returns (vec [- 1, - 1, - 1])"
  by (simp_all add: example_library_def example_log_prob_def or_raise_def mat_def vec_def
      rv_logits_def rv_loc_def rv_precision_def UnconstrainedDirichlet_def MVNInverseTriL_def)

theorem joint_log_prob_sum_witness:
  "joint_log_prob example_library (mat [[0, 1], [1, 0]]) (vec [0, 0])
     (mat [[- 2, - 2], [0, 0], [2, 2]]) (mat [[1, 0, 1], [1, 0, 1], [1, 0, - 1]])
   = Returns (Scalar (- 12))"
  using joint_log_prob_sum [OF example_make_tril_batch pad_vec [of "[0, 0]"]
      _ example_log_prob_values(2) example_log_prob_values(3) example_log_prob_values(4),
      of "mat [[0, 1], [1, 0]]" "[- 1 / 2, - 1 / 2]"]
    example_log_prob_values(1)
  by simp

theorem closure_pins_observations_witness:
  "unnormalized_posterior_log_prob example_library (mat [[0, 1], [1, 0]])
     [vec [0, 0], mat [[- 2, - 2], [0, 0], [2, 2]]] = Raises TypeError"
  using closure_pins_observations [of example_library "mat [[0, 1], [1, 0]]" _ _ _
      "[vec [0, 0], mat [[- 2, - 2], [0, 0], [2, 2]]]"]
  by simp

lemma np_eye_2: "np_eye 2 = mat [[1, 0], [0, 1]]"
  by (simp add: np_eye_def numeral_2_eq_2)

lemma example_initial_state:
  "initial_state example_library
   = Returns [vec [0, 0], mat [[- 2, - 2], [0, 0], [2, 2]],
              mat [[1, 0, 1], [1, 0, 1], [1, 0, 1]]]"
  by (simp add: initial_state_def bind_def example_library_def or_raise_def components_def
      dims_def np_eye_2 mat_def vec_def fill_triangular_inverse_rows_def rectangular_def
      ncols_def numeral_3_eq_3)

theorem logits_convention_witness:
  "initial_state example_library
   = Returns [vec [0, 0], mat [[- 2, - 2], [0, 0], [2, 2]],
              mat [[1, 0, 1], [1, 0, 1], [1, 0, 1]]]
   \<and> joint_log_prob logits_probe_library (mat [[0, 1], [1, 0]]) (vec [0, 0])
       (mat [[- 2, - 2], [0, 0], [2, 2]]) (mat [[1, 0, 1], [1, 0, 1], [1, 0, - 1]])
     = Raises (LibraryError 3)
   \<and> length ([0, 0] @ [0 :: real]) = components"
proof -
  have tril: "make_tril logits_probe_library (mat [[1, 0, 1], [1, 0, 1], [1, 0, - 1]])
                (Some tf_abs)
              = Returns (Tensor [mat [[1, 0], [0, 1]], mat [[1, 0], [0, 1]],
                                 mat [[1, 0], [0, 1]]])"
    using example_make_tril_batch by (simp add: make_tril_def logits_probe_library_def)
  have probe: "log_prob logits_probe_library
                 (MixtureSameFamily (Categorical (vec ([0, 0] @ [0])))
                    (MVNInverseTriL (mat [[- 2, - 2], [0, 0], [2, 2]])
                       (Tensor [mat [[1, 0], [0, 1]], mat [[1, 0], [0, 1]],
                                mat [[1, 0], [0, 1]]]) None))
                 (mat [[0, 1], [1, 0]]) = Raises (LibraryError 3)"
    by (simp add: logits_probe_library_def vec_def)
  have len: "length ([0, 0] @ [0 :: real]) = components"
    by (simp add: components_def)
  have run: "joint_log_prob logits_probe_library (mat [[0, 1], [1, 0]]) (vec ([0, 0]))
               (mat [[- 2, - 2], [0, 0], [2, 2]]) (mat [[1, 0, 1], [1, 0, 1], [1, 0, - 1]])
             = Raises (LibraryError 3)"
    using logits_convention [where L = logits_probe_library
        and observations = "mat [[0, 1], [1, 0]]" and ls = "[0, 0]"
        and loc = "mat [[- 2, - 2], [0, 0], [2, 2]]"
        and flat_chol_precision = "mat [[1, 0, 1], [1, 0, 1], [1, 0, - 1]]"
        and chol_precision = "Tensor [mat [[1, 0], [0, 1]], mat [[1, 0], [0, 1]],
                                      mat [[1, 0], [0, 1]]]"
        and e = "LibraryError 3"]
      tril probe
    by blast
  from example_initial_state run len show ?thesis by simp
qed

subsection \<open>Bijectors and sessions\<close>




lemma reset_sess_default:
  "reset_sess R None w = reset_sess R (Some (session_options True True)) w"
  by (simp add: reset_sess_def)

lemma reset_sess_returns:
  assumes "returns_none R (history w @ [ResetDefaultGraph]) = Returns ()"
    and "\<forall>s. sess w = Some s \<longrightarrow>
           returns_none R (history w @ [ResetDefaultGraph, SessionClose s]) \<noteq> Diverges"
    and "returns_session R (history_after_close w @ [NewInteractiveSession config]) = Returns s'"
  shows "reset_sess R (Some config) w
         = (Returns (), \<lparr>history = history_after_close w @ [NewInteractiveSession config],
                          sess = Some s'\<rparr>)"
proof (cases "sess w")
  case None
  with assms show ?thesis
    by (simp add: reset_sess_def seq_def perform_def try_except_pass_def read_sess_def
        assign_sess_def history_after_close_def Let_def)
next
  case (Some s)
  with assms have "returns_none R (history w @ [ResetDefaultGraph, SessionClose s]) \<noteq> Diverges"
    by simp
  with Some assms show ?thesis
    by (cases "returns_none R (history w @ [ResetDefaultGraph, SessionClose s])")
       (simp_all add: reset_sess_def seq_def perform_def try_except_pass_def read_sess_def
        assign_sess_def history_after_close_def Let_def)
qed

lemma reset_sess_raises:
  assumes "fst (reset_sess R (Some config) w) = Raises e"
  shows "returns_none R (history w @ [ResetDefaultGraph]) = Raises e
       \<or> returns_session R (history_after_close w @ [NewInteractiveSession config]) = Raises e"
  using assms
  by (auto simp: reset_sess_def seq_def perform_def try_except_pass_def read_sess_def
      assign_sess_def history_after_close_def Let_def
      split: outcome.splits option.splits prod.splits if_splits)

text \<open>
  C6. \<open>reset_sess\<close> without a configuration is \<open>reset_sess\<close> with \<open>session_options()\<close>.
  Provided \<open>tf.reset_default_graph\<close> and \<open>tf.InteractiveSession\<close> return, it returns with
  the graph reset and the global \<open>sess\<close> bound to the new session made with the given
  configuration, whether \<open>sess\<close> was unbound before, or bound to a session that closes, or
  bound to one whose \<open>close\<close> raises. An exception that \<open>reset_sess\<close> raises is one raised
  by \<open>tf.reset_default_graph\<close> or by \<open>tf.InteractiveSession\<close>.
\<close>

theorem reset_sess_rebinds:
  "reset_sess R None w = reset_sess R (Some (session_options True True)) w
   \<and> (returns_none R (history w @ [ResetDefaultGraph]) = Returns ()
      \<longrightarrow> (\<forall>s. sess w = Some s \<longrightarrow>
             returns_none R (history w @ [ResetDefaultGraph, SessionClose s]) \<noteq> Diverges)
      \<longrightarrow> returns_session R (history_after_close w @ [NewInteractiveSession config])
          = Returns s'
      \<longrightarrow> reset_sess R (Some config) w
          = (Returns (), \<lparr>history = history_after_close w @ [NewInteractiveSession config],
                           sess = Some s'\<rparr>))
   \<and> (fst (reset_sess R (Some config) w) = Raises e
      \<longrightarrow> returns_none R (history w @ [ResetDefaultGraph]) = Raises e
        \<or> returns_session R (history_after_close w @ [NewInteractiveSession config]) = Raises e)"
  using reset_sess_default reset_sess_returns reset_sess_raises by blast

theorem reset_sess_rebinds_witness:
  "reset_sess failing_close_environment (Some (session_options False False))
     \<lparr>history = [], sess = Some (Session 7)\<rparr>
   = (Returns (),
      \<lparr>history = [ResetDefaultGraph, SessionClose (Session 7),
                  NewInteractiveSession (session_options False False)],
       sess = Some (Session 3)\<rparr>)"
  using reset_sess_rebinds [of failing_close_environment
      "\<lparr>history = [], sess = Some (Session 7)\<rparr>" "session_options False False" "Session 3"]
  by (simp add: failing_close_environment_def example_environment_def history_after_close_def)

subsection \<open>Termination\<close>

lemma bind_terminates:
  "m \<noteq> Diverges \<Longrightarrow> (\<And>a. f a \<noteq> Diverges) \<Longrightarrow> bind m f \<noteq> Diverges"
  by (cases m) (simp_all add: bind_def)

lemma or_raise_terminates: "or_raise e m \<noteq> Diverges"
  by (cases m) (simp_all add: or_raise_def)

lemma seq_terminates:
  assumes "\<And>w. fst (m w) \<noteq> Diverges" and "\<And>a w. fst (f a w) \<noteq> Diverges"
  shows "fst (seq m f w) \<noteq> Diverges"
  using assms(1) [of w] assms(2)
  by (auto simp: seq_def split: prod.splits outcome.splits)

lemma lift_terminates: "m \<noteq> Diverges \<Longrightarrow> fst (lift m w) \<noteq> Diverges"
  by (simp add: lift_def)

lemma perform_terminates: "(\<And>h. respond h \<noteq> Diverges) \<Longrightarrow> fst (perform respond c w) \<noteq> Diverges"
  by (simp add: perform_def Let_def)

lemma read_sess_terminates: "fst (read_sess w) \<noteq> Diverges"
  by (simp add: read_sess_def split: option.splits)

lemma try_except_pass_terminates:
  assumes "\<And>w. fst (body w) \<noteq> Diverges"
  shows "fst (try_except_pass body w) \<noteq> Diverges"
  using assms [of w]
  by (auto simp: try_except_pass_def split: prod.splits outcome.splits)

lemma make_tril_terminates:
  assumes "library_terminates L" "\<And>f t. transform_fn = Some f \<Longrightarrow> f t \<noteq> Diverges"
  shows "make_tril L x transform_fn \<noteq> Diverges"
proof (cases transform_fn)
  case None
  with assms(1) show ?thesis
    by (simp add: make_tril_def library_terminates_def bind_terminates)
next
  case (Some f)
  have "bind (tf_matrix_diag_part y) (\<lambda>diag. bind (f diag) (\<lambda>new_diag. tf_set_diag y new_diag))
        \<noteq> Diverges" for y
    using assms(2) [OF Some]
    by (intro bind_terminates) (simp_all add: tf_matrix_diag_part_def tf_set_diag_def or_raise_terminates)
  with Some assms(1) show ?thesis
    by (simp add: make_tril_def library_terminates_def bind_terminates)
qed

lemma make_tril_abs_terminates:
  "library_terminates L \<Longrightarrow> make_tril L x (Some tf_abs) \<noteq> Diverges"
  by (rule make_tril_terminates) (simp_all add: tf_abs_def)

lemma joint_log_prob_terminates:
  assumes "library_terminates L"
  shows "joint_log_prob L observations logits loc flat_chol_precision \<noteq> Diverges"
  unfolding joint_log_prob_def rv_observations_def
  using assms
  by (intro bind_terminates make_tril_abs_terminates)
     (simp_all add: library_terminates_def pad_def tf_concat_def tf_reduce_sum_def
       or_raise_terminates)

lemma closure_terminates:
  "library_terminates L \<Longrightarrow> unnormalized_posterior_log_prob L observations args \<noteq> Diverges"
  by (simp add: unnormalized_posterior_log_prob_def joint_log_prob_terminates split: list.splits)

lemma reset_sess_terminates:
  assumes "environment_terminates R"
  shows "fst (reset_sess R config w) \<noteq> Diverges"
  unfolding reset_sess_def Let_def
  using assms
  by (intro seq_terminates try_except_pass_terminates perform_terminates read_sess_terminates)
     (simp_all add: environment_terminates_def assign_sess_def)

lemma initial_state_terminates: "library_terminates L \<Longrightarrow> initial_state L \<noteq> Diverges"
  unfolding initial_state_def
  by (intro bind_terminates) (simp_all add: library_terminates_def)

lemma assign_terminates: "fst (assign name v w) \<noteq> Diverges"
  by (simp add: assign_def)

lemma unpack_terminates: "unpack n xs \<noteq> Diverges"
  by (simp add: unpack_def)

lemma kdeplot_terminates:
  "environment_terminates R \<Longrightarrow> library_terminates L \<Longrightarrow> fst (kdeplot R L a k w) \<noteq> Diverges"
  unfolding kdeplot_def
  by (intro seq_terminates lift_terminates perform_terminates assign_terminates)
     (simp_all add: environment_terminates_def library_terminates_def)

lemma notebook_terminates:
  assumes R: "environment_terminates R" and L: "library_terminates L"
  shows "fst (notebook R L w) \<noteq> Diverges"
proof -
  note rs = R [unfolded environment_terminates_def] and ls = L [unfolded library_terminates_def]
  have c1: "fst (cell_imports R w) \<noteq> Diverges" for w
    unfolding cell_imports_def using rs by (intro perform_terminates) simp
  have c2: "fst (cell_session R w) \<noteq> Diverges" for w
    unfolding cell_session_def
    by (intro seq_terminates assign_terminates reset_sess_terminates [OF R])
  have c3: "fst (cell_transforms w) \<noteq> Diverges" for w
    unfolding cell_transforms_def by (intro seq_terminates assign_terminates)
  have c4: "fst (cell_sizes w) \<noteq> Diverges" for w
    unfolding cell_sizes_def by (intro seq_terminates assign_terminates)
  have c5: "fst (cell_priors w) \<noteq> Diverges" for w
    unfolding cell_priors_def by (intro seq_terminates assign_terminates)
  have c6: "fst (cell_print_priors R w) \<noteq> Diverges" for w
    unfolding cell_print_priors_def using rs
    by (intro seq_terminates perform_terminates) simp_all
  have c7: "fst (cell_joint w) \<noteq> Diverges" for w
    unfolding cell_joint_def by (rule assign_terminates)
  have c8: "fst (cell_data R L w) \<noteq> Diverges" for w
    unfolding cell_data_def using rs ls
    by (intro seq_terminates perform_terminates lift_terminates assign_terminates) simp_all
  have c9: "fst (cell_closure L observations w) \<noteq> Diverges" for observations w
    unfolding cell_closure_def using initial_state_terminates [OF L]
    by (intro seq_terminates lift_terminates assign_terminates) simp_all
  have c10: "fst (cell_sample R L observations state w) \<noteq> Diverges" for observations state w
    unfolding cell_sample_def using rs
    by (intro seq_terminates perform_terminates lift_terminates assign_terminates
        unpack_terminates) simp_all
  have c11: "fst (cell_reduce L result w) \<noteq> Diverges" for result w
    unfolding cell_reduce_def using ls make_tril_abs_terminates [OF L]
    by (intro seq_terminates lift_terminates assign_terminates) simp_all
  have c12: "fst (cell_run R fetches w) \<noteq> Diverges" for fetches w
    unfolding cell_run_def using rs
    by (intro seq_terminates perform_terminates lift_terminates read_sess_terminates
        assign_terminates unpack_terminates) simp_all
  have c13: "fst (cell_print_means R vs w) \<noteq> Diverges" for vs w
    unfolding cell_print_means_def using rs
    by (intro seq_terminates perform_terminates) simp_all
  have c14: "fst (cell_plot R L vs w) \<noteq> Diverges" for vs w
    unfolding cell_plot_def using rs kdeplot_terminates [OF R L]
    by (intro seq_terminates perform_terminates) simp_all
  show ?thesis
    unfolding notebook_def
    by (intro seq_terminates c1 c2 c3 c4 c5 c6 c7 c8 c9 c10 c11 c12 c13 c14)
qed

text \<open>
  C7. None of the notebook's functions loops or recurses, so each returns or raises
  whenever the library calls it makes do: \<open>make_tril\<close> (for a \<open>transform_fn\<close> that
  returns or raises), \<open>joint_log_prob\<close>, the closure, \<open>reset_sess\<close> and the notebook from
  its first cell to its last. \<open>session_options\<close> calls nothing that could fail to return.
\<close>

theorem glue_terminates:
  assumes "library_terminates L" and "environment_terminates R"
    and "\<forall>f t. transform_fn = Some f \<longrightarrow> f t \<noteq> Diverges"
  shows "make_tril L x transform_fn \<noteq> Diverges
       \<and> joint_log_prob L observations logits loc flat_chol_precision \<noteq> Diverges
       \<and> unnormalized_posterior_log_prob L observations args \<noteq> Diverges
       \<and> fst (reset_sess R config w) \<noteq> Diverges
       \<and> fst (notebook R L w) \<noteq> Diverges"
  using assms
  by (simp add: make_tril_terminates joint_log_prob_terminates closure_terminates
      reset_sess_terminates notebook_terminates)

lemma example_library_terminates: "library_terminates example_library"
  by (simp add: library_terminates_def example_library_def or_raise_terminates pad_def
      example_log_prob_def example_first_def split: tensor.splits list.splits)

lemma example_environment_terminates: "environment_terminates example_environment"
  by (simp add: environment_terminates_def example_environment_def split: call.splits)

theorem glue_terminates_witness:
  "make_tril example_library (vec [1, - 2, - 3]) (Some tf_abs) \<noteq> Diverges
   \<and> joint_log_prob example_library (mat [[0, 1], [1, 0]]) (vec [0, 0])
       (mat [[- 2, - 2], [0, 0], [2, 2]]) (mat [[1, 0, 1], [1, 0, 1], [1, 0, - 1]]) \<noteq> Diverges
   \<and> unnormalized_posterior_log_prob example_library (mat [[0, 1], [1, 0]]) [] \<noteq> Diverges
   \<and> fst (reset_sess example_environment None fresh_world) \<noteq> Diverges
   \<and> fst (notebook example_environment example_library fresh_world) \<noteq> Diverges"
  using glue_terminates [OF example_library_terminates example_environment_terminates,
      of "Some tf_abs"]
  by (simp add: tf_abs_def)

subsection \<open>The order of the run\<close>







































































end
